theory Spec2Isabelle
  imports Main
begin

section \<open>Errors and formatted text\<close>

text \<open>
  The reconciler of \<^verbatim>\<open>controllers/vmi_controller.go\<close> classifies the errors of the
  Kubernetes API by their status reason (\<^verbatim>\<open>apierrors.IsNotFound\<close>,
  \<^verbatim>\<open>apierrors.IsAlreadyExists\<close>) and builds new errors with \<^verbatim>\<open>fmt.Errorf\<close>,
  \<^verbatim>\<open>errors.Errorf\<close>, \<^verbatim>\<open>errors.Wrapf\<close> and \<^verbatim>\<open>errors.New\<close>. A formatted error
  keeps its format string and its operands as the source writes them; the operand of a
  \<^verbatim>\<open>%w\<close> verb, and the cause of \<^verbatim>\<open>errors.Wrapf\<close>, is the wrapped error.
\<close>

datatype status_reason =
    StatusReasonUnknown
  | StatusReasonNotFound
  | StatusReasonAlreadyExists
  | StatusReasonConflict
  | StatusReasonForbidden
  | StatusReasonTimeout
  | StatusReasonInternalError

datatype arg = ArgString string | ArgError error
and error =
    StatusError status_reason string
  | ErrorsNew string
  | Errorf string "arg list"
  | Wrapped string "arg list" error

text \<open>The status reason of an error is looked for along its chain of wrapped causes, as
  \<^verbatim>\<open>errors.As\<close> does. A status error is kept by its reason and message; its HTTP code is
  not part of the model.\<close>

fun ReasonForError :: "error \<Rightarrow> status_reason" where
  "ReasonForError (StatusError r m) = r"
| "ReasonForError (ErrorsNew m) = StatusReasonUnknown"
| "ReasonForError (Errorf f xs) = StatusReasonUnknown"
| "ReasonForError (Wrapped f xs e) = ReasonForError e"

definition IsNotFound :: "error \<Rightarrow> bool" where
  "IsNotFound err = (ReasonForError err = StatusReasonNotFound)"

definition IsAlreadyExists :: "error \<Rightarrow> bool" where
  "IsAlreadyExists err = (ReasonForError err = StatusReasonAlreadyExists)"

text \<open>A message is a literal, or \<^verbatim>\<open>fmt.Sprintf\<close> of a format and its operands.\<close>

datatype message = Lit string | Sprintf string "arg list"

section \<open>Objects of the two clusters\<close>

text \<open>\<^verbatim>\<open>time.Duration\<close> counts nanoseconds; the constants of the source are far from
  the bounds of its 64 bits.\<close>

type_synonym duration = int

definition Second :: duration where
  "Second = 1000000000"

record NamespacedName =
  Namespace :: string
  Name :: string

text \<open>\<^verbatim>\<open>NamespacedName.String()\<close>, which \<^verbatim>\<open>%s\<close> prints.\<close>

definition String :: "NamespacedName \<Rightarrow> string" where
  "String n = Namespace n @ ''/'' @ Name n"

text \<open>The instance: its labels and \<^verbatim>\<open>Status.EvacuationNodeName\<close>.\<close>

record VirtualMachineInstance =
  vmi_Namespace :: string
  vmi_Name :: string
  Labels :: "string \<rightharpoonup> string"
  EvacuationNodeName :: string

record ObjectReference =
  ref_Namespace :: string
  ref_Name :: string

text \<open>The cluster descriptor: \<^verbatim>\<open>Spec.InfrastructureRef\<close> is a pointer, \<open>None\<close> when nil.\<close>

record Cluster =
  cluster_Namespace :: string
  cluster_Name :: string
  InfrastructureRef :: "ObjectReference option"

record Secret =
  Data :: "string \<rightharpoonup> string"

datatype rest_config = RestConfig string

datatype kube_client = KubeClient rest_config

record Node =
  node_Name :: string
  Unschedulable :: bool

datatype deletion_propagation =
    DeletePropagationOrphan
  | DeletePropagationBackground
  | DeletePropagationForeground

record DeleteOptions =
  PropagationPolicy :: "deletion_propagation option"

text \<open>The fields of \<^verbatim>\<open>kubedrain.Helper\<close> that the source sets, and
  \<^verbatim>\<open>SkipWaitForDeleteTimeoutSeconds\<close>, zero unless set. The three callbacks of the helper
  are \<open>OnPodDeletedOrEvicted\<close> and \<open>Write\<close> below.\<close>

record Helper =
  Client :: kube_client
  Force :: bool
  IgnoreAllDaemonSets :: bool
  DeleteEmptyDirData :: bool
  GracePeriodSeconds :: int
  Timeout :: duration
  SkipWaitForDeleteTimeoutSeconds :: int

record Request =
  req_NamespacedName :: NamespacedName

record Result =
  Requeue :: bool
  RequeueAfter :: duration

section \<open>Effects\<close>

text \<open>A log entry: \<^verbatim>\<open>logger.V(n).Info(msg, keysAndValues...)\<close> or
  \<^verbatim>\<open>logger.Error(err, msg, keysAndValues...)\<close>.\<close>

datatype log_entry =
    LogInfo nat message "arg list"
  | LogError "error option" message "arg list"

text \<open>Every call the reconciler makes outside itself is an event of its trace, with its
  arguments and its answer.\<close>

datatype event =
    Log log_entry
  | GetVMI NamespacedName "error + VirtualMachineInstance"
  | GetCluster NamespacedName "error + Cluster"
  | GetSecret NamespacedName "error + Secret"
  | ParseKubeConfig string "error + rest_config"
  | NewClient rest_config "error + kube_client"
  | GetNode kube_client string "error + Node"
  | Cordon Helper Node bool "error option"
  | Drain Helper string "error option"
  | DeleteVMI VirtualMachineInstance DeleteOptions "error option"

text \<open>The environment answers each call, as a function of the arguments of the call: one
  reconciliation makes each call at most once. \<open>KubevirtMachineNamespaceLabel\<close> is the label
  key \<^verbatim>\<open>infrav1.KubevirtMachineNamespaceLabel\<close>, declared in the API package of the
  repository; \<open>IsNodeUnreachable\<close> is the classification of
  \<^verbatim>\<open>noderefutil.IsNodeUnreachable\<close>.\<close>

record world =
  KubevirtMachineNamespaceLabel :: string
  Get_vmi :: "NamespacedName \<Rightarrow> error + VirtualMachineInstance"
  Get_cluster :: "NamespacedName \<Rightarrow> error + Cluster"
  Get_secret :: "NamespacedName \<Rightarrow> error + Secret"
  RESTConfigFromKubeConfig :: "string \<Rightarrow> error + rest_config"
  NewForConfig :: "rest_config \<Rightarrow> error + kube_client"
  Nodes_Get :: "kube_client \<Rightarrow> string \<Rightarrow> error + Node"
  IsNodeUnreachable :: "Node \<Rightarrow> bool"
  RunCordonOrUncordon :: "Helper \<Rightarrow> Node \<Rightarrow> bool \<Rightarrow> error option"
  RunNodeDrain :: "Helper \<Rightarrow> string \<Rightarrow> error option"
  Delete_vmi :: "VirtualMachineInstance \<Rightarrow> DeleteOptions \<Rightarrow> error option"

text \<open>\<^verbatim>\<open>clusterv1.ClusterLabelName\<close> of Cluster API v1beta1.\<close>

definition ClusterLabelName :: string where
  "ClusterLabelName = ''cluster.x-k8s.io/cluster-name''"

text \<open>A call returns, or panics on a nil pointer.\<close>

datatype 'a outcome = Return 'a | Panic

section \<open>The reconciler\<close>

text \<open>\<^verbatim>\<open>writer.Write\<close>: the bytes go to the log function, and their number is returned
  with no error.\<close>

definition Write :: "(string \<Rightarrow> log_entry) \<Rightarrow> string \<Rightarrow> (nat \<times> error option) \<times> event list" where
  "Write logFunc p = ((length p, None), [Log (logFunc p)])"

text \<open>The callback \<^verbatim>\<open>OnPodDeletedOrEvicted\<close> of the drain helper, on a pod's name and
  namespace.\<close>

definition OnPodDeletedOrEvicted :: "string \<Rightarrow> string \<Rightarrow> bool \<Rightarrow> event list" where
  "OnPodDeletedOrEvicted podName podNamespace usingEviction =
     (let verbStr = (if usingEviction then ''Evicted'' else ''Deleted'')
      in [Log (LogInfo 0 (Sprintf ''%s pod from Node'' [ArgString verbStr])
                [ArgString ''pod'',
                 ArgString (podName @ ''/'' @ podNamespace)])])"

definition getCluster ::
  "world \<Rightarrow> VirtualMachineInstance \<Rightarrow> (error + Cluster) \<times> event list" where
  "getCluster w vmi =
     (case Labels vmi (KubevirtMachineNamespaceLabel w) of
        None \<Rightarrow>
          (Inl (Errorf ''can't find the cluster namespace from the VM; missing %s label''
                  [ArgString (KubevirtMachineNamespaceLabel w)]), [])
      | Some clusterNS \<Rightarrow>
          (case Labels vmi ClusterLabelName of
             None \<Rightarrow>
               (Inl (Errorf ''can't find the cluster name from the VM; missing %s label''
                       [ArgString ClusterLabelName]), [])
           | Some clusterName \<Rightarrow>
               (let key = \<lparr>Namespace = clusterNS, Name = clusterName\<rparr>;
                    r = Get_cluster w key
                in case r of
                     Inl err \<Rightarrow>
                       (Inl (Wrapped ''can't find the cluster %s/%s; %w''
                               [ArgString clusterNS, ArgString clusterName] err),
                        [GetCluster key r])
                   | Inr cluster \<Rightarrow> (Inr cluster, [GetCluster key r]))))"

definition getKubeconfigForWorkloadCluster ::
  "world \<Rightarrow> Cluster \<Rightarrow> (error + string) outcome \<times> event list" where
  "getKubeconfigForWorkloadCluster w cluster =
     (case InfrastructureRef cluster of
        None \<Rightarrow> (Panic, [])
      | Some ref \<Rightarrow>
          (let kubeconfigSecretKey =
                 \<lparr>Namespace = ref_Namespace ref, Name = ref_Name ref @ ''-kubeconfig''\<rparr>;
               r = Get_secret w kubeconfigSecretKey
           in case r of
                Inl err \<Rightarrow>
                  (Return (Inl (Wrapped ''failed to fetch kubeconfig for workload cluster'' [] err)),
                   [GetSecret kubeconfigSecretKey r])
              | Inr kubeconfigSecret \<Rightarrow>
                  (case Data kubeconfigSecret ''value'' of
                     None \<Rightarrow>
                       (Return (Inl (ErrorsNew
                          ''error retrieving kubeconfig data: secret value key is missing'')),
                        [GetSecret kubeconfigSecretKey r])
                   | Some v \<Rightarrow> (Return (Inr v), [GetSecret kubeconfigSecretKey r]))))"

text \<open>The drain helper that \<open>drainNode\<close> builds before it looks at the node.\<close>

definition new_drainer :: "kube_client \<Rightarrow> Helper" where
  "new_drainer kubeClient =
     \<lparr>Client = kubeClient, Force = True, IgnoreAllDaemonSets = True,
      DeleteEmptyDirData = True, GracePeriodSeconds = - 1, Timeout = 20 * Second,
      SkipWaitForDeleteTimeoutSeconds = 0\<rparr>"

definition drainNode ::
  "world \<Rightarrow> Cluster \<Rightarrow> string \<Rightarrow> (bool \<times> duration \<times> error option) outcome \<times> event list" where
  "drainNode w cluster nodeName =
     (case getKubeconfigForWorkloadCluster w cluster of
        (Panic, t0) \<Rightarrow> (Panic, t0)
      | (Return (Inl err), t0) \<Rightarrow>
          (Return (False, 0, None),
           t0 @ [Log (LogError (Some err)
                   (Lit ''Error getting a remote client configurations while deleting Machine, won't retry'') [])])
      | (Return (Inr kubeconfigData), t0) \<Rightarrow>
          (let rc = RESTConfigFromKubeConfig w kubeconfigData;
               t1 = t0 @ [ParseKubeConfig kubeconfigData rc]
           in case rc of
                Inl err \<Rightarrow>
                  (Return (False, 0, None),
                   t1 @ [Log (LogError (Some err)
                     (Lit ''Error generating a remote client configurations while deleting Machine, won't retry'') [])])
              | Inr restConfig \<Rightarrow>
                  (let kc = NewForConfig w restConfig;
                       t2 = t1 @ [NewClient restConfig kc]
                   in case kc of
                        Inl err \<Rightarrow>
                          (Return (False, 0, None),
                           t2 @ [Log (LogError (Some err)
                             (Lit ''Error creating a remote client while deleting Machine, won't retry'') [])])
                      | Inr kubeClient \<Rightarrow>
                          (let n = Nodes_Get w kubeClient nodeName;
                               t3 = t2 @ [GetNode kubeClient nodeName n]
                           in case n of
                                Inl err \<Rightarrow>
                                  (if IsNotFound err then
                                     (Return (True, 0, None),
                                      t3 @ [Log (LogError (Some err)
                                        (Lit ''Could not find node from noderef, it may have already been deleted'') [])])
                                   else
                                     (Return (False, 0,
                                        Some (Wrapped ''unable to get node %q: %w'' [ArgString nodeName] err)),
                                      t3))
                              | Inr node \<Rightarrow>
                                  (let drainer =
                                         (if IsNodeUnreachable w node
                                          then (new_drainer kubeClient)
                                                 \<lparr>SkipWaitForDeleteTimeoutSeconds := 60 * 5\<rparr>
                                          else new_drainer kubeClient);
                                       c = RunCordonOrUncordon w drainer node True;
                                       t4 = t3 @ [Cordon drainer node True c]
                                   in case c of
                                        Some err \<Rightarrow>
                                          (Return (False, 0,
                                             Some (Errorf ''unable to cordon node %s: %v''
                                                     [ArgString nodeName, ArgError err])),
                                           t4 @ [Log (LogError (Some err) (Lit ''Cordon failed'') [])])
                                      | None \<Rightarrow>
                                          (let d = RunNodeDrain w drainer (node_Name node);
                                               t5 = t4 @ [Drain drainer (node_Name node) d]
                                           in case d of
                                                Some err \<Rightarrow>
                                                  (Return (False, 20 * Second, None),
                                                   t5 @ [Log (LogError (Some err)
                                                     (Lit ''Drain failed, retry in 20s'')
                                                     [ArgString ''node name'', ArgString nodeName])])
                                              | None \<Rightarrow>
                                                  (Return (True, 0, None),
                                                   t5 @ [Log (LogInfo 0 (Lit ''Drain successful'')
                                                     [ArgString ''node name'', ArgString nodeName])])))))))"

definition Reconcile ::
  "world \<Rightarrow> Request \<Rightarrow> (Result \<times> error option) outcome \<times> event list" where
  "Reconcile w req =
     (let key = req_NamespacedName req;
          g = Get_vmi w key;
          t0 = [GetVMI key g]
      in case g of
           Inl err \<Rightarrow>
             (if IsNotFound err then
                (Return (\<lparr>Requeue = False, RequeueAfter = 0\<rparr>, None),
                 t0 @ [Log (LogInfo 4
                   (Sprintf ''Can't find virtualMachineInstance %s; it was already deleted.''
                      [ArgString (String key)]) [])])
              else
                (Return (\<lparr>Requeue = False, RequeueAfter = 0\<rparr>, Some err),
                 t0 @ [Log (LogError (Some err)
                   (Sprintf ''failed to read VMI %s'' [ArgString (Name key)]) [])]))
         | Inr vmi \<Rightarrow>
             (let nodeName = EvacuationNodeName vmi
              in if length nodeName = 0 then
                   (Return (\<lparr>Requeue = False, RequeueAfter = 0\<rparr>, None),
                    t0 @ [Log (LogInfo 4
                      (Sprintf ''The virtualMachineInstance %s is not marked for deletion. Nothing to do here''
                         [ArgString (String key)]) [])])
                 else
                   (case getCluster w vmi of
                      (Inl err, t1) \<Rightarrow>
                        (Return (\<lparr>Requeue = False, RequeueAfter = 0\<rparr>, Some err),
                         t0 @ t1 @ [Log (LogError (Some err)
                           (Lit ''Can't get the cluster form the VirtualMachineInstance'') [])])
                    | (Inr cluster, t1) \<Rightarrow>
                        (case drainNode w cluster nodeName of
                           (Panic, t2) \<Rightarrow> (Panic, t0 @ t1 @ t2)
                         | (Return (nodeDrained, retryDuration, err), t2) \<Rightarrow>
                             (if err \<noteq> None \<or> \<not> nodeDrained then
                                (Return (\<lparr>Requeue = False, RequeueAfter = retryDuration\<rparr>, err),
                                 t0 @ t1 @ t2)
                              else
                                (let opts = \<lparr>PropagationPolicy = Some DeletePropagationForeground\<rparr>;
                                     d = Delete_vmi w vmi opts;
                                     t3 = t0 @ t1 @ t2 @ [DeleteVMI vmi opts d]
                                 in case d of
                                      Some err' \<Rightarrow>
                                        (if \<not> IsAlreadyExists err' then
                                           (Return (\<lparr>Requeue = False, RequeueAfter = 20 * Second\<rparr>,
                                              Some err'), t3)
                                         else
                                           (Return (\<lparr>Requeue = False, RequeueAfter = 0\<rparr>, None), t3))
                                    | None \<Rightarrow>
                                        (Return (\<lparr>Requeue = False, RequeueAfter = 0\<rparr>, None), t3)))))))"

section \<open>Notions used in the statements and proofs\<close>

text \<open>The result and the trace of a call, taken apart.\<close>

definition drainNode_result ::
  "world \<Rightarrow> Cluster \<Rightarrow> string \<Rightarrow> (bool \<times> duration \<times> error option) outcome" where
  "drainNode_result w cluster nodeName = fst (drainNode w cluster nodeName)"

definition drainNode_trace :: "world \<Rightarrow> Cluster \<Rightarrow> string \<Rightarrow> event list" where
  "drainNode_trace w cluster nodeName = snd (drainNode w cluster nodeName)"

definition Reconcile_result :: "world \<Rightarrow> Request \<Rightarrow> (Result \<times> error option) outcome" where
  "Reconcile_result w req = fst (Reconcile w req)"

definition Reconcile_trace :: "world \<Rightarrow> Request \<Rightarrow> event list" where
  "Reconcile_trace w req = snd (Reconcile w req)"

text \<open>The key of the credential secret of an infrastructure reference.\<close>

definition secret_key :: "ObjectReference \<Rightarrow> NamespacedName" where
  "secret_key ref = \<lparr>Namespace = ref_Namespace ref, Name = ref_Name ref @ ''-kubeconfig''\<rparr>"

text \<open>The helper that \<open>drainNode\<close> hands to the cordon and drain steps for a fetched node.\<close>

definition drainer_for :: "world \<Rightarrow> kube_client \<Rightarrow> Node \<Rightarrow> Helper" where
  "drainer_for w kc node =
     (if IsNodeUnreachable w node
      then (new_drainer kc)\<lparr>SkipWaitForDeleteTimeoutSeconds := 60 * 5\<rparr>
      else new_drainer kc)"

text \<open>\<^verbatim>\<open>ctrl.Result{}\<close>, and the delete options of \<open>Reconcile\<close>.\<close>

definition no_requeue :: Result where
  "no_requeue = \<lparr>Requeue = False, RequeueAfter = 0\<rparr>"

definition foreground :: DeleteOptions where
  "foreground = \<lparr>PropagationPolicy = Some DeletePropagationForeground\<rparr>"

subsection \<open>A management cluster and a workload cluster to run the reconciler on\<close>

definition vmi0 :: VirtualMachineInstance where
  "vmi0 = \<lparr>vmi_Namespace = ''default'', vmi_Name = ''vm-1'',
            Labels = [''capk.cluster.x-k8s.io/kubevirt-machine-namespace'' \<mapsto> ''tenants'',
                      ''cluster.x-k8s.io/cluster-name'' \<mapsto> ''c1''],
            EvacuationNodeName = ''node-7''\<rparr>"

definition cluster0 :: Cluster where
  "cluster0 = \<lparr>cluster_Namespace = ''tenants'', cluster_Name = ''c1'',
                InfrastructureRef = Some \<lparr>ref_Namespace = ''tenants'', ref_Name = ''c1''\<rparr>\<rparr>"

definition secret0 :: Secret where
  "secret0 = \<lparr>Data = [''value'' \<mapsto> ''kubeconfig-of-c1'']\<rparr>"

definition client0 :: kube_client where
  "client0 = KubeClient (RestConfig ''kubeconfig-of-c1'')"

definition node0 :: Node where
  "node0 = \<lparr>node_Name = ''node-7'', Unschedulable = False\<rparr>"

definition req0 :: Request where
  "req0 = \<lparr>req_NamespacedName = \<lparr>Namespace = ''default'', Name = ''vm-1''\<rparr>\<rparr>"

text \<open>In \<open>world0\<close> every call succeeds and the node is reachable.\<close>

definition world0 :: world where
  "world0 =
     \<lparr>KubevirtMachineNamespaceLabel = ''capk.cluster.x-k8s.io/kubevirt-machine-namespace'',
      Get_vmi = (\<lambda>k. Inr vmi0),
      Get_cluster = (\<lambda>k. Inr cluster0),
      Get_secret = (\<lambda>k. Inr secret0),
      RESTConfigFromKubeConfig = (\<lambda>d. Inr (RestConfig d)),
      NewForConfig = (\<lambda>c. Inr (KubeClient c)),
      Nodes_Get = (\<lambda>c n. Inr node0),
      IsNodeUnreachable = (\<lambda>n. False),
      RunCordonOrUncordon = (\<lambda>h n b. None),
      RunNodeDrain = (\<lambda>h n. None),
      Delete_vmi = (\<lambda>v opts. None)\<rparr>"

definition gone :: error where
  "gone = StatusError StatusReasonNotFound ''not found''"

definition refused :: error where
  "refused = ErrorsNew ''connection refused''"

text \<open>Variations of \<open>world0\<close>, each with one call that fails or answers otherwise.\<close>

definition timed_out :: error where
  "timed_out = ErrorsNew ''drain did not complete within 20s''"

definition world_drain_fails :: world where
  "world_drain_fails = world0\<lparr>RunNodeDrain := (\<lambda>h n. Some timed_out)\<rparr>"

definition world_cordon_fails :: world where
  "world_cordon_fails = world0\<lparr>RunCordonOrUncordon := (\<lambda>h n b. Some refused)\<rparr>"


definition world_unreachable :: world where
  "world_unreachable = world0\<lparr>IsNodeUnreachable := (\<lambda>n. True)\<rparr>"

definition world_not_evacuating :: world where
  "world_not_evacuating = world0\<lparr>Get_vmi := (\<lambda>k. Inr (vmi0\<lparr>EvacuationNodeName := []\<rparr>))\<rparr>"

text \<open>An event of the workload cluster or of the credentials in the trace of \<open>Reconcile\<close>
  was made by the call of \<open>drainNode\<close>.\<close>

definition drain_event :: "event \<Rightarrow> bool" where
  "drain_event ev =
     (case ev of
        GetSecret k g \<Rightarrow> True
      | ParseKubeConfig d g \<Rightarrow> True
      | NewClient c g \<Rightarrow> True
      | GetNode c n g \<Rightarrow> True
      | Cordon h n b r \<Rightarrow> True
      | Drain h n r \<Rightarrow> True
      | _ \<Rightarrow> False)"






definition vmi_no_namespace_label :: VirtualMachineInstance where
  "vmi_no_namespace_label = vmi0\<lparr>Labels := [''cluster.x-k8s.io/cluster-name'' \<mapsto> ''c1'']\<rparr>"

definition vmi_no_name_label :: VirtualMachineInstance where
  "vmi_no_name_label =
     vmi0\<lparr>Labels := [''capk.cluster.x-k8s.io/kubevirt-machine-namespace'' \<mapsto> ''tenants'']\<rparr>"

definition world_no_cluster :: world where
  "world_no_cluster = world0\<lparr>Get_cluster := (\<lambda>k. Inl gone)\<rparr>"

definition world_delete_gone :: world where
  "world_delete_gone = world0\<lparr>Delete_vmi := (\<lambda>v opts. Some gone)\<rparr>"

section \<open>The paths of \<open>drainNode\<close> and \<open>Reconcile\<close>\<close>

lemmas drain_defs = drainNode_def getKubeconfigForWorkloadCluster_def Let_def

lemma drainNode_cases:
  obtains
    (panic) "drainNode w c n = (Panic, [])"
  | (secret) k r e m where
      "drainNode w c n = (Return (False, 0, None), [GetSecret k r, Log (LogError (Some e) m [])])"
      "(\<exists>e'. r = Inl e') \<or> (\<exists>s. r = Inr s \<and> Data s ''value'' = None)"
  | (parse) k s v e m where
      "Data s ''value'' = Some v"
      "drainNode w c n = (Return (False, 0, None),
         [GetSecret k (Inr s), ParseKubeConfig v (Inl e), Log (LogError (Some e) m [])])"
  | (client) k s v rc e m where
      "Data s ''value'' = Some v"
      "drainNode w c n = (Return (False, 0, None),
         [GetSecret k (Inr s), ParseKubeConfig v (Inr rc), NewClient rc (Inl e),
          Log (LogError (Some e) m [])])"
  | (node_gone) k s v rc kc e m where
      "Data s ''value'' = Some v"
      "IsNotFound e"
      "drainNode w c n = (Return (True, 0, None),
         [GetSecret k (Inr s), ParseKubeConfig v (Inr rc), NewClient rc (Inr kc),
          GetNode kc n (Inl e), Log (LogError (Some e) m [])])"
  | (node_err) k s v rc kc e where
      "Data s ''value'' = Some v"
      "\<not> IsNotFound e"
      "drainNode w c n =
         (Return (False, 0, Some (Wrapped ''unable to get node %q: %w'' [ArgString n] e)),
          [GetSecret k (Inr s), ParseKubeConfig v (Inr rc), NewClient rc (Inr kc),
           GetNode kc n (Inl e)])"
  | (cordon_err) k s v rc kc node e m where
      "Data s ''value'' = Some v"
      "drainNode w c n =
         (Return (False, 0, Some (Errorf ''unable to cordon node %s: %v'' [ArgString n, ArgError e])),
          [GetSecret k (Inr s), ParseKubeConfig v (Inr rc), NewClient rc (Inr kc),
           GetNode kc n (Inr node), Cordon (drainer_for w kc node) node True (Some e),
           Log (LogError (Some e) m [])])"
  | (drain_err) k s v rc kc node e m kv where
      "Data s ''value'' = Some v"
      "drainNode w c n =
         (Return (False, 20 * Second, None),
          [GetSecret k (Inr s), ParseKubeConfig v (Inr rc), NewClient rc (Inr kc),
           GetNode kc n (Inr node), Cordon (drainer_for w kc node) node True None,
           Drain (drainer_for w kc node) (node_Name node) (Some e),
           Log (LogError (Some e) m kv)])"
  | (drained) k s v rc kc node m kv where
      "Data s ''value'' = Some v"
      "drainNode w c n =
         (Return (True, 0, None),
          [GetSecret k (Inr s), ParseKubeConfig v (Inr rc), NewClient rc (Inr kc),
           GetNode kc n (Inr node), Cordon (drainer_for w kc node) node True None,
           Drain (drainer_for w kc node) (node_Name node) None,
           Log (LogInfo 0 m kv)])"
proof (cases "InfrastructureRef c")
  case None
  then have "drainNode w c n = (Panic, [])" by (simp add: drain_defs)
  then show ?thesis by (rule panic)
next
  case ref: (Some ref)
  show ?thesis
  proof (cases "Get_secret w (secret_key ref)")
    case (Inl e)
    with ref show ?thesis
      by (intro secret, simp add: drain_defs secret_key_def, simp)
  next
    case sec: (Inr s)
    show ?thesis
    proof (cases "Data s ''value''")
      case None
      with ref sec show ?thesis
        by (intro secret, simp add: drain_defs secret_key_def, simp)
    next
      case val: (Some v)
      show ?thesis
      proof (cases "RESTConfigFromKubeConfig w v")
        case (Inl e)
        with ref sec val show ?thesis
          by (intro parse) (simp_all add: drain_defs secret_key_def)
      next
        case rc: (Inr rc)
        show ?thesis
        proof (cases "NewForConfig w rc")
          case (Inl e)
          with ref sec val rc show ?thesis
            by (intro client) (simp_all add: drain_defs secret_key_def)
        next
          case kc: (Inr kc)
          show ?thesis
          proof (cases "Nodes_Get w kc n")
            case (Inl e)
            show ?thesis
            proof (cases "IsNotFound e")
              case True
              with ref sec val rc kc Inl show ?thesis
                by (intro node_gone) (simp_all add: drain_defs secret_key_def)
            next
              case False
              with ref sec val rc kc Inl show ?thesis
                by (intro node_err) (simp_all add: drain_defs secret_key_def)
            qed
          next
            case nd: (Inr node)
            show ?thesis
            proof (cases "RunCordonOrUncordon w (drainer_for w kc node) node True")
              case (Some e)
              with ref sec val rc kc nd show ?thesis
                by (intro cordon_err) (simp_all add: drain_defs secret_key_def drainer_for_def[symmetric] split del: if_split)
            next
              case co: None
              show ?thesis
              proof (cases "RunNodeDrain w (drainer_for w kc node) (node_Name node)")
                case (Some e)
                with ref sec val rc kc nd co show ?thesis
                  by (intro drain_err) (simp_all add: drain_defs secret_key_def drainer_for_def[symmetric] split del: if_split)
              next
                case None
                with ref sec val rc kc nd co show ?thesis
                  by (intro drained) (simp_all add: drain_defs secret_key_def drainer_for_def[symmetric] split del: if_split)
              qed
            qed
          qed
        qed
      qed
    qed
  qed
qed

lemma getCluster_trace:
  assumes "getCluster w vmi = (r, t)" and "ev \<in> set t"
  shows "\<exists>k g. ev = GetCluster k g"
  using assms unfolding getCluster_def Let_def
  by (auto split: option.splits sum.splits)

lemma Reconcile_cases:
  fixes w req
  defines "key \<equiv> req_NamespacedName req"
  obtains
    (vmi_gone) e m where
      "Get_vmi w key = Inl e" "IsNotFound e"
      "Reconcile w req = (Return (no_requeue, None), [GetVMI key (Inl e), Log (LogInfo 4 m [])])"
  | (vmi_err) e m where
      "Get_vmi w key = Inl e" "\<not> IsNotFound e"
      "Reconcile w req = (Return (no_requeue, Some e), [GetVMI key (Inl e), Log (LogError (Some e) m [])])"
  | (no_evac) vmi m where
      "Get_vmi w key = Inr vmi" "EvacuationNodeName vmi = []"
      "Reconcile w req = (Return (no_requeue, None), [GetVMI key (Inr vmi), Log (LogInfo 4 m [])])"
  | (cluster_err) vmi e t1 m where
      "Get_vmi w key = Inr vmi" "EvacuationNodeName vmi \<noteq> []"
      "getCluster w vmi = (Inl e, t1)"
      "Reconcile w req =
         (Return (no_requeue, Some e), GetVMI key (Inr vmi) # t1 @ [Log (LogError (Some e) m [])])"
  | (panic) vmi cluster t1 t2 where
      "Get_vmi w key = Inr vmi" "EvacuationNodeName vmi \<noteq> []"
      "getCluster w vmi = (Inr cluster, t1)"
      "drainNode w cluster (EvacuationNodeName vmi) = (Panic, t2)"
      "Reconcile w req = (Panic, GetVMI key (Inr vmi) # t1 @ t2)"
  | (not_drained) vmi cluster t1 t2 d r e where
      "Get_vmi w key = Inr vmi" "EvacuationNodeName vmi \<noteq> []"
      "getCluster w vmi = (Inr cluster, t1)"
      "drainNode w cluster (EvacuationNodeName vmi) = (Return (d, r, e), t2)"
      "e \<noteq> None \<or> \<not> d"
      "Reconcile w req =
         (Return (\<lparr>Requeue = False, RequeueAfter = r\<rparr>, e), GetVMI key (Inr vmi) # t1 @ t2)"
  | (delete_err) vmi cluster t1 t2 r e where
      "Get_vmi w key = Inr vmi" "EvacuationNodeName vmi \<noteq> []"
      "getCluster w vmi = (Inr cluster, t1)"
      "drainNode w cluster (EvacuationNodeName vmi) = (Return (True, r, None), t2)"
      "Delete_vmi w vmi foreground = Some e" "\<not> IsAlreadyExists e"
      "Reconcile w req =
         (Return (\<lparr>Requeue = False, RequeueAfter = 20 * Second\<rparr>, Some e),
          GetVMI key (Inr vmi) # t1 @ t2 @ [DeleteVMI vmi foreground (Some e)])"
  | (deleted) vmi cluster t1 t2 r d where
      "Get_vmi w key = Inr vmi" "EvacuationNodeName vmi \<noteq> []"
      "getCluster w vmi = (Inr cluster, t1)"
      "drainNode w cluster (EvacuationNodeName vmi) = (Return (True, r, None), t2)"
      "Delete_vmi w vmi foreground = d" "\<forall>e. d = Some e \<longrightarrow> IsAlreadyExists e"
      "Reconcile w req =
         (Return (no_requeue, None),
          GetVMI key (Inr vmi) # t1 @ t2 @ [DeleteVMI vmi foreground d])"
proof (cases "Get_vmi w key")
  case (Inl e)
  show ?thesis
  proof (cases "IsNotFound e")
    case True
    with Inl show ?thesis
      by (intro vmi_gone) (simp_all add: Reconcile_def Let_def key_def no_requeue_def)
  next
    case False
    with Inl show ?thesis
      by (intro vmi_err) (simp_all add: Reconcile_def Let_def key_def no_requeue_def)
  qed
next
  case v: (Inr vmi)
  show ?thesis
  proof (cases "EvacuationNodeName vmi = []")
    case True
    with v show ?thesis
      by (intro no_evac) (simp_all add: Reconcile_def Let_def key_def no_requeue_def)
  next
    case ev: False
    obtain gc t1 where g: "getCluster w vmi = (gc, t1)"
      by (cases "getCluster w vmi")
    show ?thesis
    proof (cases gc)
      case (Inl e)
      with v ev g show ?thesis
        by (intro cluster_err) (simp_all add: Reconcile_def Let_def key_def no_requeue_def)
    next
      case cl: (Inr cluster)
      obtain dn t2 where d: "drainNode w cluster (EvacuationNodeName vmi) = (dn, t2)"
        by (cases "drainNode w cluster (EvacuationNodeName vmi)")
      show ?thesis
      proof (cases dn)
        case Panic
        with v ev g cl d show ?thesis
          by (intro panic) (simp_all add: Reconcile_def Let_def key_def)
      next
        case (Return res)
        obtain dd r e where res: "res = (dd, r, e)"
          by (cases res)
        show ?thesis
        proof (cases "e \<noteq> None \<or> \<not> dd")
          case True
          with v ev g cl d Return res show ?thesis
            by (intro not_drained) (simp_all add: Reconcile_def Let_def key_def)
        next
          case False
          then have ok: "e = None" "dd = True" by simp_all
          show ?thesis
          proof (cases "Delete_vmi w vmi foreground")
            case None
            with v ev g cl d Return res ok show ?thesis
              by (intro deleted)
                (simp_all add: Reconcile_def Let_def key_def no_requeue_def foreground_def)
          next
            case (Some e')
            show ?thesis
            proof (cases "IsAlreadyExists e'")
              case True
              with v ev g cl d Return res ok Some show ?thesis
                by (intro deleted)
                  (simp_all add: Reconcile_def Let_def key_def no_requeue_def foreground_def)
            next
              case False
              with v ev g cl d Return res ok Some show ?thesis
                by (intro delete_err)
                  (simp_all add: Reconcile_def Let_def key_def no_requeue_def foreground_def)
            qed
          qed
        qed
      qed
    qed
  qed
qed

lemma drainNode_no_delete: "DeleteVMI v opts r \<notin> set (snd (drainNode w c n))"
  by (cases rule: drainNode_cases[of w c n]) auto

lemma drainNode_done_no_retry:
  "drainNode w c n = (Return (True, r, e), t) \<Longrightarrow> r = 0 \<and> e = None"
  by (cases rule: drainNode_cases[of w c n]) auto

text \<open>An event of a reconciliation that is neither the fetch of the instance, nor a log
  entry, nor the fetch of the cluster, nor the final delete, is an event of the drain.\<close>

lemma Reconcile_trace_cases:
  assumes "ev \<in> set (snd (Reconcile w req))"
  shows "(\<exists>k g. ev = GetVMI k g) \<or> (\<exists>l. ev = Log l) \<or> (\<exists>k g. ev = GetCluster k g) \<or>
         (\<exists>v opts r. ev = DeleteVMI v opts r) \<or>
         (\<exists>vmi cluster t1.
            Get_vmi w (req_NamespacedName req) = Inr vmi \<and> EvacuationNodeName vmi \<noteq> [] \<and>
            getCluster w vmi = (Inr cluster, t1) \<and>
            ev \<in> set (snd (drainNode w cluster (EvacuationNodeName vmi))))"
  using assms
  by (cases rule: Reconcile_cases[of w req]) (auto dest: getCluster_trace)

lemma Reconcile_not_drained:
  assumes "Get_vmi w (req_NamespacedName req) = Inr vmi" and "EvacuationNodeName vmi \<noteq> []"
    and "getCluster w vmi = (Inr cluster, t1)"
    and "drainNode w cluster (EvacuationNodeName vmi) = (Return (d, r, e), t2)"
    and "e \<noteq> None \<or> \<not> d"
  shows "Reconcile w req =
           (Return (\<lparr>Requeue = False, RequeueAfter = r\<rparr>, e),
            GetVMI (req_NamespacedName req) (Inr vmi) # t1 @ t2)"
  using assms by (cases rule: Reconcile_cases[of w req]) auto


section \<open>The reconciler on the clusters above\<close>

lemma drainNode_world0:
  "drainNode world0 cluster0 ''node-7'' =
     (Return (True, 0, None),
      [GetSecret \<lparr>Namespace = ''tenants'', Name = ''c1-kubeconfig''\<rparr> (Inr secret0),
       ParseKubeConfig ''kubeconfig-of-c1'' (Inr (RestConfig ''kubeconfig-of-c1'')),
       NewClient (RestConfig ''kubeconfig-of-c1'') (Inr client0),
       GetNode client0 ''node-7'' (Inr node0),
       Cordon (new_drainer client0) node0 True None,
       Drain (new_drainer client0) ''node-7'' None,
       Log (LogInfo 0 (Lit ''Drain successful'') [ArgString ''node name'', ArgString ''node-7''])])"
  by (simp add: drain_defs world0_def cluster0_def secret0_def client0_def node0_def)

lemma drainNode_drain_fails:
  "drainNode world_drain_fails cluster0 ''node-7'' =
     (Return (False, 20000000000, None),
      [GetSecret \<lparr>Namespace = ''tenants'', Name = ''c1-kubeconfig''\<rparr> (Inr secret0),
       ParseKubeConfig ''kubeconfig-of-c1'' (Inr (RestConfig ''kubeconfig-of-c1'')),
       NewClient (RestConfig ''kubeconfig-of-c1'') (Inr client0),
       GetNode client0 ''node-7'' (Inr node0),
       Cordon (new_drainer client0) node0 True None,
       Drain (new_drainer client0) ''node-7'' (Some timed_out),
       Log (LogError (Some timed_out) (Lit ''Drain failed, retry in 20s'')
              [ArgString ''node name'', ArgString ''node-7''])])"
  by (simp add: drain_defs world_drain_fails_def world0_def cluster0_def secret0_def client0_def
      node0_def Second_def)

lemma drainNode_cordon_fails:
  "drainNode world_cordon_fails cluster0 ''node-7'' =
     (Return (False, 0,
        Some (Errorf ''unable to cordon node %s: %v'' [ArgString ''node-7'', ArgError refused])),
      [GetSecret \<lparr>Namespace = ''tenants'', Name = ''c1-kubeconfig''\<rparr> (Inr secret0),
       ParseKubeConfig ''kubeconfig-of-c1'' (Inr (RestConfig ''kubeconfig-of-c1'')),
       NewClient (RestConfig ''kubeconfig-of-c1'') (Inr client0),
       GetNode client0 ''node-7'' (Inr node0),
       Cordon (new_drainer client0) node0 True (Some refused),
       Log (LogError (Some refused) (Lit ''Cordon failed'') [])])"
  by (simp add: drain_defs world_cordon_fails_def world0_def cluster0_def secret0_def
      client0_def node0_def)

lemma getCluster_world0_gen:
  "Get_cluster w = Get_cluster world0 \<Longrightarrow>
   KubevirtMachineNamespaceLabel w = KubevirtMachineNamespaceLabel world0 \<Longrightarrow>
   getCluster w vmi0 =
     (Inr cluster0, [GetCluster \<lparr>Namespace = ''tenants'', Name = ''c1''\<rparr> (Inr cluster0)])"
  by (simp add: getCluster_def Let_def world0_def vmi0_def ClusterLabelName_def)

lemma getCluster_no_delete: "getCluster w vmi = (g, t1) \<Longrightarrow> DeleteVMI v opts r \<notin> set t1"
  by (auto dest: getCluster_trace)

lemma Reconcile_world0:
  "Reconcile world0 req0 =
     (Return (\<lparr>Requeue = False, RequeueAfter = 0\<rparr>, None),
      GetVMI \<lparr>Namespace = ''default'', Name = ''vm-1''\<rparr> (Inr vmi0) #
      [GetCluster \<lparr>Namespace = ''tenants'', Name = ''c1''\<rparr> (Inr cluster0)] @
      snd (drainNode world0 cluster0 ''node-7'') @
      [DeleteVMI vmi0 foreground None])"
proof -
  have g: "getCluster world0 vmi0 =
     (Inr cluster0, [GetCluster \<lparr>Namespace = ''tenants'', Name = ''c1''\<rparr> (Inr cluster0)])"
    by (rule getCluster_world0_gen) simp_all
  have v: "Get_vmi world0 key = Inr vmi0" for key
    by (simp add: world0_def)
  have n: "EvacuationNodeName vmi0 = ''node-7''"
    by (simp add: vmi0_def)
  have k: "req_NamespacedName req0 = \<lparr>Namespace = ''default'', Name = ''vm-1''\<rparr>"
    by (simp add: req0_def)
  have d: "Delete_vmi world0 vmi0 \<lparr>PropagationPolicy = Some DeletePropagationForeground\<rparr> = None"
    by (simp add: world0_def)
  show ?thesis
    by (simp add: Reconcile_def Let_def v n g d drainNode_world0 foreground_def k)
qed

lemma getCluster_only_get_cluster:
  assumes "getCluster w vmi = (g, t1)"
  shows "Cordon h nd b r \<notin> set t1" and "Drain h nm r' \<notin> set t1"
    and "GetNode kc nn gn \<notin> set t1" and "GetSecret k gs \<notin> set t1"
    and "ParseKubeConfig d gp \<notin> set t1" and "NewClient rc gc \<notin> set t1"
  using getCluster_trace [OF assms] by auto

lemma Reconcile_drain_event:
  assumes "ev \<in> set (Reconcile_trace w req)" and "drain_event ev"
  obtains vmi cluster t1 where
    "Get_vmi w (req_NamespacedName req) = Inr vmi" "EvacuationNodeName vmi \<noteq> []"
    "getCluster w vmi = (Inr cluster, t1)"
    "ev \<in> set (snd (drainNode w cluster (EvacuationNodeName vmi)))"
  using Reconcile_trace_cases [of ev w req] assms
  by (auto simp: Reconcile_trace_def drain_event_def)



text \<open>\<open>Reconcile\<close> on \<open>req0\<close> in a variation of \<open>world0\<close> that keeps its two management
  cluster fetches, by the result of the drain.\<close>

lemma Reconcile_req0_not_drained:
  assumes "\<And>key. Get_vmi w key = Inr vmi0"
    and "Get_cluster w = Get_cluster world0"
    and "KubevirtMachineNamespaceLabel w = KubevirtMachineNamespaceLabel world0"
    and "drainNode w cluster0 ''node-7'' = (Return (d, r, e), t2)"
    and "e \<noteq> None \<or> \<not> d"
  shows "Reconcile w req0 =
     (Return (\<lparr>Requeue = False, RequeueAfter = r\<rparr>, e),
      GetVMI \<lparr>Namespace = ''default'', Name = ''vm-1''\<rparr> (Inr vmi0) #
      GetCluster \<lparr>Namespace = ''tenants'', Name = ''c1''\<rparr> (Inr cluster0) # t2)"
proof -
  have n: "EvacuationNodeName vmi0 = ''node-7''"
    by (simp add: vmi0_def)
  have k: "req_NamespacedName req0 = \<lparr>Namespace = ''default'', Name = ''vm-1''\<rparr>"
    by (simp add: req0_def)
  from assms(5) show ?thesis
    by (auto simp add: Reconcile_def Let_def assms(1,4) n k
        getCluster_world0_gen [OF assms(2,3)])
qed

lemma Reconcile_req0_drained:
  assumes "\<And>key. Get_vmi w key = Inr vmi0"
    and "Get_cluster w = Get_cluster world0"
    and "KubevirtMachineNamespaceLabel w = KubevirtMachineNamespaceLabel world0"
    and "drainNode w cluster0 ''node-7'' = (Return (True, r, None), t2)"
  shows "Reconcile w req0 =
     ((case Delete_vmi w vmi0 foreground of
         None \<Rightarrow> Return (\<lparr>Requeue = False, RequeueAfter = 0\<rparr>, None)
       | Some err \<Rightarrow>
           if IsAlreadyExists err then Return (\<lparr>Requeue = False, RequeueAfter = 0\<rparr>, None)
           else Return (\<lparr>Requeue = False, RequeueAfter = 20 * Second\<rparr>, Some err)),
      GetVMI \<lparr>Namespace = ''default'', Name = ''vm-1''\<rparr> (Inr vmi0) #
      GetCluster \<lparr>Namespace = ''tenants'', Name = ''c1''\<rparr> (Inr cluster0) # t2 @
      [DeleteVMI vmi0 foreground (Delete_vmi w vmi0 foreground)])"
proof -
  have n: "EvacuationNodeName vmi0 = ''node-7''"
    by (simp add: vmi0_def)
  have k: "req_NamespacedName req0 = \<lparr>Namespace = ''default'', Name = ''vm-1''\<rparr>"
    by (simp add: req0_def)
  show ?thesis
    by (simp add: Reconcile_def Let_def assms(1,4) n k foreground_def
        getCluster_world0_gen [OF assms(2,3)] split: option.split)
qed

lemma drain_cordon_failed:
  assumes "Cordon h nd b (Some err) \<in> set (snd (drainNode w c n))"
  shows "\<exists>t. drainNode w c n =
           (Return (False, 0,
              Some (Errorf ''unable to cordon node %s: %v'' [ArgString n, ArgError err])), t) \<and>
           (\<forall>h' nm r. Drain h' nm r \<notin> set t)"
  using assms by (cases rule: drainNode_cases[of w c n]) auto

lemma world_cordon_fails_mgmt:
  "Get_vmi world_cordon_fails key = Inr vmi0"
  "Get_cluster world_cordon_fails = Get_cluster world0"
  "KubevirtMachineNamespaceLabel world_cordon_fails = KubevirtMachineNamespaceLabel world0"
  by (simp_all add: world_cordon_fails_def world0_def)











lemma labels_vmi0:
  "Labels vmi0 (KubevirtMachineNamespaceLabel world0) = Some ''tenants''"
  "Labels vmi0 ClusterLabelName = Some ''c1''"
  by (simp_all add: vmi0_def world0_def ClusterLabelName_def)

lemma labels_vmi_no_namespace_label:
  "Labels vmi_no_namespace_label (KubevirtMachineNamespaceLabel world0) = None"
  by (simp add: vmi_no_namespace_label_def world0_def)

lemma labels_vmi_no_name_label:
  "Labels vmi_no_name_label (KubevirtMachineNamespaceLabel world0) = Some ''tenants''"
  "Labels vmi_no_name_label ClusterLabelName = None"
  by (simp_all add: vmi_no_name_label_def world0_def ClusterLabelName_def)

lemma world_no_cluster_mgmt:
  "Get_vmi world_no_cluster key = Inr vmi0"
  "Get_cluster world_no_cluster key = Inl gone"
  "KubevirtMachineNamespaceLabel world_no_cluster = KubevirtMachineNamespaceLabel world0"
  by (simp_all add: world_no_cluster_def world0_def)

lemma drainer_for_skip:
  "SkipWaitForDeleteTimeoutSeconds (drainer_for w kc node) =
     (if IsNodeUnreachable w node then 300 else 0)"
  by (simp add: drainer_for_def new_drainer_def)

lemma drain_fetched_node:
  assumes "GetNode kc nn (Inr node) \<in> set (snd (drainNode w c n))"
  shows "\<exists>pre r post. snd (drainNode w c n) =
           pre @ [GetNode kc n (Inr node), Cordon (drainer_for w kc node) node True r] @ post \<and>
           (\<forall>h nd b r'. Cordon h nd b r' \<in> set (snd (drainNode w c n)) \<longrightarrow>
              h = drainer_for w kc node \<and> nd = node) \<and>
           (\<forall>h nm r'. Drain h nm r' \<in> set (snd (drainNode w c n)) \<longrightarrow>
              h = drainer_for w kc node \<and> nm = node_Name node)"
  using assms
proof (cases rule: drainNode_cases[of w c n])
  case (cordon_err k s v rc kc' node' e m)
  with assms show ?thesis
    by (intro exI[of _ "[GetSecret k (Inr s), ParseKubeConfig v (Inr rc), NewClient rc (Inr kc')]"]
        exI[of _ "Some e"] exI[of _ "[Log (LogError (Some e) m [])]"]) auto
next
  case (drain_err k s v rc kc' node' e m kv)
  with assms show ?thesis
    by (intro exI[of _ "[GetSecret k (Inr s), ParseKubeConfig v (Inr rc), NewClient rc (Inr kc')]"]
        exI[of _ "None"]
        exI[of _ "[Drain (drainer_for w kc' node') (node_Name node') (Some e),
                   Log (LogError (Some e) m kv)]"]) auto
next
  case (drained k s v rc kc' node' m kv)
  with assms show ?thesis
    by (intro exI[of _ "[GetSecret k (Inr s), ParseKubeConfig v (Inr rc), NewClient rc (Inr kc')]"]
        exI[of _ "None"]
        exI[of _ "[Drain (drainer_for w kc' node') (node_Name node') None,
                   Log (LogInfo 0 m kv)]"]) auto
qed auto

lemma drainNode_unreachable:
  "drainNode world_unreachable cluster0 ''node-7'' =
     (Return (True, 0, None),
      [GetSecret \<lparr>Namespace = ''tenants'', Name = ''c1-kubeconfig''\<rparr> (Inr secret0),
       ParseKubeConfig ''kubeconfig-of-c1'' (Inr (RestConfig ''kubeconfig-of-c1'')),
       NewClient (RestConfig ''kubeconfig-of-c1'') (Inr client0),
       GetNode client0 ''node-7'' (Inr node0),
       Cordon ((new_drainer client0)\<lparr>SkipWaitForDeleteTimeoutSeconds := 300\<rparr>) node0 True None,
       Drain ((new_drainer client0)\<lparr>SkipWaitForDeleteTimeoutSeconds := 300\<rparr>) ''node-7'' None,
       Log (LogInfo 0 (Lit ''Drain successful'') [ArgString ''node name'', ArgString ''node-7''])])"
  by (simp add: drain_defs world_unreachable_def world0_def cluster0_def secret0_def client0_def
      node0_def)

lemma world_delete_gone_mgmt:
  "Get_vmi world_delete_gone key = Inr vmi0"
  "Get_cluster world_delete_gone = Get_cluster world0"
  "KubevirtMachineNamespaceLabel world_delete_gone = KubevirtMachineNamespaceLabel world0"
  by (simp_all add: world_delete_gone_def world0_def)

lemma drainNode_delete_gone:
  "drainNode world_delete_gone cluster0 ''node-7'' =
     (Return (True, 0, None),
      [GetSecret \<lparr>Namespace = ''tenants'', Name = ''c1-kubeconfig''\<rparr> (Inr secret0),
       ParseKubeConfig ''kubeconfig-of-c1'' (Inr (RestConfig ''kubeconfig-of-c1'')),
       NewClient (RestConfig ''kubeconfig-of-c1'') (Inr client0),
       GetNode client0 ''node-7'' (Inr node0),
       Cordon (new_drainer client0) node0 True None,
       Drain (new_drainer client0) ''node-7'' None,
       Log (LogInfo 0 (Lit ''Drain successful'') [ArgString ''node name'', ArgString ''node-7''])])"
  by (simp add: drain_defs world_delete_gone_def world0_def cluster0_def secret0_def client0_def
      node0_def)

section \<open>The claims\<close>

text \<open>
  Claim C1, on the code. The drain is done and the delete of the instance answers with a
  not-found error: \<open>Reconcile\<close> tests the error with \<open>IsAlreadyExists\<close>, which a not-found
  error does not satisfy, and returns a requeue after 20 seconds that carries the error.
\<close>

theorem C1_delete_not_found_is_requeued:
  "IsNotFound gone \<and> \<not> IsAlreadyExists gone \<and>
   drainNode_result world_delete_gone cluster0 ''node-7'' = Return (True, 0, None) \<and>
   Delete_vmi world_delete_gone vmi0 foreground = Some gone \<and>
   last (Reconcile_trace world_delete_gone req0) = DeleteVMI vmi0 foreground (Some gone) \<and>
   Reconcile_result world_delete_gone req0 =
     Return (\<lparr>Requeue = False, RequeueAfter = 20 * Second\<rparr>, Some gone)"
proof -
  have g: "IsNotFound gone" "\<not> IsAlreadyExists gone"
    by (simp_all add: gone_def IsNotFound_def IsAlreadyExists_def)
  have dl: "Delete_vmi world_delete_gone vmi0 foreground = Some gone"
    by (simp add: world_delete_gone_def)
  have r: "drainNode_result world_delete_gone cluster0 ''node-7'' = Return (True, 0, None)"
    by (simp add: drainNode_result_def drainNode_delete_gone)
  have "Reconcile world_delete_gone req0 =
     (Return (\<lparr>Requeue = False, RequeueAfter = 20 * Second\<rparr>, Some gone),
      GetVMI \<lparr>Namespace = ''default'', Name = ''vm-1''\<rparr> (Inr vmi0) #
      GetCluster \<lparr>Namespace = ''tenants'', Name = ''c1''\<rparr> (Inr cluster0) #
      snd (drainNode world_delete_gone cluster0 ''node-7'') @
      [DeleteVMI vmi0 foreground (Some gone)])"
    using Reconcile_req0_drained [OF world_delete_gone_mgmt drainNode_delete_gone] g(2)
    by (simp add: dl drainNode_delete_gone)
  then show ?thesis
    using g dl r by (simp add: Reconcile_result_def Reconcile_trace_def)
qed

text \<open>
  Claim C2. Whenever the trace of \<open>Reconcile\<close> holds a delete of the instance, the delete
  options carry foreground propagation, and the delete is the last event of the trace, after
  the events of a call of \<open>drainNode\<close> that returned \<open>done = true\<close> with a nil error.
\<close>

theorem C2_delete_only_after_drain:
  "DeleteVMI v opts res \<in> set (Reconcile_trace w req) \<longrightarrow>
     PropagationPolicy opts = Some DeletePropagationForeground \<and>
     (\<exists>cluster t1 t2.
        Get_vmi w (req_NamespacedName req) = Inr v \<and>
        getCluster w v = (Inr cluster, t1) \<and>
        drainNode w cluster (EvacuationNodeName v) = (Return (True, 0, None), t2) \<and>
        Reconcile_trace w req =
          GetVMI (req_NamespacedName req) (Inr v) # t1 @ t2 @ [DeleteVMI v opts res])"
proof
  assume a: "DeleteVMI v opts res \<in> set (Reconcile_trace w req)"
  show "PropagationPolicy opts = Some DeletePropagationForeground \<and>
     (\<exists>cluster t1 t2.
        Get_vmi w (req_NamespacedName req) = Inr v \<and>
        getCluster w v = (Inr cluster, t1) \<and>
        drainNode w cluster (EvacuationNodeName v) = (Return (True, 0, None), t2) \<and>
        Reconcile_trace w req =
          GetVMI (req_NamespacedName req) (Inr v) # t1 @ t2 @ [DeleteVMI v opts res])"
  proof (cases rule: Reconcile_cases[of w req])
    case (vmi_gone e m)
    with a show ?thesis by (simp add: Reconcile_trace_def)
  next
    case (vmi_err e m)
    with a show ?thesis by (simp add: Reconcile_trace_def)
  next
    case (no_evac vmi m)
    with a show ?thesis by (simp add: Reconcile_trace_def)
  next
    case (cluster_err vmi e t1 m)
    with a getCluster_no_delete [OF cluster_err(3)] show ?thesis
      by (simp add: Reconcile_trace_def)
  next
    case (panic vmi cluster t1 t2)
    with a getCluster_no_delete [OF panic(3)]
      drainNode_no_delete [of v opts res w cluster "EvacuationNodeName vmi"]
    show ?thesis by (simp add: Reconcile_trace_def)
  next
    case (not_drained vmi cluster t1 t2 d r e)
    with a getCluster_no_delete [OF not_drained(3)]
      drainNode_no_delete [of v opts res w cluster "EvacuationNodeName vmi"]
    show ?thesis by (simp add: Reconcile_trace_def)
  next
    case (delete_err vmi cluster t1 t2 r e)
    from drainNode_done_no_retry [OF delete_err(4)] have "r = 0" by simp
    with a delete_err getCluster_no_delete [OF delete_err(3)]
      drainNode_no_delete [of v opts res w cluster "EvacuationNodeName vmi"]
    show ?thesis by (auto simp: Reconcile_trace_def foreground_def)
  next
    case (deleted vmi cluster t1 t2 r d)
    from drainNode_done_no_retry [OF deleted(4)] have "r = 0" by simp
    with a deleted(1-5,7) getCluster_no_delete [OF deleted(3)]
      drainNode_no_delete [of v opts res w cluster "EvacuationNodeName vmi"]
    show ?thesis by (auto simp: Reconcile_trace_def foreground_def)
  qed
qed

theorem C2_delete_only_after_drain_witness:
  "DeleteVMI vmi0 foreground None \<in> set (Reconcile_trace world0 req0) \<and>
   PropagationPolicy foreground = Some DeletePropagationForeground \<and>
   fst (drainNode world0 cluster0 (EvacuationNodeName vmi0)) = Return (True, 0, None) \<and>
   last (Reconcile_trace world0 req0) = DeleteVMI vmi0 foreground None"
proof -
  have a: "DeleteVMI vmi0 foreground None \<in> set (Reconcile_trace world0 req0)"
    by (simp add: Reconcile_trace_def Reconcile_world0)
  have n: "EvacuationNodeName vmi0 = ''node-7''"
    by (simp add: vmi0_def)
  show ?thesis
    using C2_delete_only_after_drain [of vmi0 foreground None world0 req0] a
    by (simp add: Reconcile_trace_def Reconcile_world0 drainNode_world0 n foreground_def)
qed



text \<open>
  Claim C4. When the node drain step fails or times out, \<open>drainNode\<close> returns
  \<open>(false, 20 seconds, nil)\<close>; \<open>Reconcile\<close> then returns a requeue after 20 seconds with no
  error, and its trace holds no delete of the instance.
\<close>

theorem C4_drain_failure_requeues:
  "(Drain h nm (Some err) \<in> set (drainNode_trace w cluster nodeName) \<longrightarrow>
      drainNode_result w cluster nodeName = Return (False, 20 * Second, None)) \<and>
   (Drain h nm (Some err) \<in> set (Reconcile_trace w req) \<longrightarrow>
      Reconcile_result w req = Return (\<lparr>Requeue = False, RequeueAfter = 20 * Second\<rparr>, None) \<and>
      (\<forall>v opts r. DeleteVMI v opts r \<notin> set (Reconcile_trace w req)))"
proof -
  have "drainNode_result w cluster nodeName = Return (False, 20 * Second, None)"
    if "Drain h nm (Some err) \<in> set (drainNode_trace w cluster nodeName)"
    using that unfolding drainNode_trace_def drainNode_result_def
    by (cases rule: drainNode_cases[of w cluster nodeName]) auto
  moreover have "Reconcile_result w req =
        Return (\<lparr>Requeue = False, RequeueAfter = 20 * Second\<rparr>, None) \<and>
      (\<forall>v opts r. DeleteVMI v opts r \<notin> set (Reconcile_trace w req))"
    if "Drain h nm (Some err) \<in> set (Reconcile_trace w req)"
  proof -
    from that obtain vmi c t1 where v: "Get_vmi w (req_NamespacedName req) = Inr vmi"
      and ev: "EvacuationNodeName vmi \<noteq> []" and g: "getCluster w vmi = (Inr c, t1)"
      and d: "Drain h nm (Some err) \<in> set (snd (drainNode w c (EvacuationNodeName vmi)))"
      unfolding Reconcile_trace_def by (auto dest: Reconcile_trace_cases)
    from d obtain t2 where
      dn: "drainNode w c (EvacuationNodeName vmi) = (Return (False, 20 * Second, None), t2)"
      by (cases rule: drainNode_cases[of w c "EvacuationNodeName vmi"]) auto
    have r: "Reconcile w req =
        (Return (\<lparr>Requeue = False, RequeueAfter = 20 * Second\<rparr>, None),
         GetVMI (req_NamespacedName req) (Inr vmi) # t1 @ t2)"
      using Reconcile_not_drained [OF v ev g dn] by simp
    have "DeleteVMI v' opts r' \<notin> set t1" for v' opts r'
      using getCluster_trace [OF g] by auto
    moreover have "DeleteVMI v' opts r' \<notin> set t2" for v' opts r'
      using drainNode_no_delete [of v' opts r' w c "EvacuationNodeName vmi"] dn by simp
    ultimately show ?thesis
      using r by (simp add: Reconcile_result_def Reconcile_trace_def)
  qed
  ultimately show ?thesis by blast
qed

theorem C4_drain_failure_requeues_witness:
  "Drain (new_drainer client0) ''node-7'' (Some timed_out)
      \<in> set (drainNode_trace world_drain_fails cluster0 ''node-7'') \<and>
   drainNode_result world_drain_fails cluster0 ''node-7'' = Return (False, 20000000000, None) \<and>
   Drain (new_drainer client0) ''node-7'' (Some timed_out)
      \<in> set (Reconcile_trace world_drain_fails req0) \<and>
   Reconcile_result world_drain_fails req0 =
      Return (\<lparr>Requeue = False, RequeueAfter = 20000000000\<rparr>, None)"
proof -
  have g: "getCluster world_drain_fails vmi0 =
     (Inr cluster0, [GetCluster \<lparr>Namespace = ''tenants'', Name = ''c1''\<rparr> (Inr cluster0)])"
    by (rule getCluster_world0_gen) (simp_all add: world_drain_fails_def)
  have v: "Get_vmi world_drain_fails (req_NamespacedName req0) = Inr vmi0"
    by (simp add: world_drain_fails_def world0_def)
  have n: "EvacuationNodeName vmi0 = ''node-7''"
    by (simp add: vmi0_def)
  have a: "Drain (new_drainer client0) ''node-7'' (Some timed_out)
      \<in> set (drainNode_trace world_drain_fails cluster0 ''node-7'')"
    by (simp add: drainNode_trace_def drainNode_drain_fails)
  have b: "Drain (new_drainer client0) ''node-7'' (Some timed_out)
      \<in> set (Reconcile_trace world_drain_fails req0)"
    by (simp add: Reconcile_trace_def Reconcile_def Let_def v n g drainNode_drain_fails)
  show ?thesis
    using C4_drain_failure_requeues
      [of "new_drainer client0" "''node-7''" timed_out world_drain_fails cluster0 "''node-7''" req0]
      a b
    by (simp add: Second_def)
qed

text \<open>
  Claim C5. When the cordon step fails, \<open>drainNode\<close> returns \<open>(false, 0, err)\<close> with a
  non-nil error and makes no drain call; \<open>Reconcile\<close> returns that error with no requeue
  delay, and its trace holds neither a drain call nor a delete of the instance.
\<close>

theorem C5_cordon_failure_is_surfaced:
  "(Cordon h nd b (Some err) \<in> set (drainNode_trace w cluster nodeName) \<longrightarrow>
      drainNode_result w cluster nodeName =
        Return (False, 0,
          Some (Errorf ''unable to cordon node %s: %v'' [ArgString nodeName, ArgError err])) \<and>
      (\<forall>h' nm r. Drain h' nm r \<notin> set (drainNode_trace w cluster nodeName))) \<and>
   (Cordon h nd b (Some err) \<in> set (Reconcile_trace w req) \<longrightarrow>
      (\<exists>n. Reconcile_result w req =
         Return (\<lparr>Requeue = False, RequeueAfter = 0\<rparr>,
           Some (Errorf ''unable to cordon node %s: %v'' [ArgString n, ArgError err]))) \<and>
      (\<forall>h' nm r. Drain h' nm r \<notin> set (Reconcile_trace w req)) \<and>
      (\<forall>v opts r. DeleteVMI v opts r \<notin> set (Reconcile_trace w req)))"
proof -
  have "drainNode_result w cluster nodeName =
        Return (False, 0,
          Some (Errorf ''unable to cordon node %s: %v'' [ArgString nodeName, ArgError err])) \<and>
      (\<forall>h' nm r. Drain h' nm r \<notin> set (drainNode_trace w cluster nodeName))"
    if "Cordon h nd b (Some err) \<in> set (drainNode_trace w cluster nodeName)"
    using drain_cordon_failed [of h nd b err w cluster nodeName] that
    by (auto simp: drainNode_trace_def drainNode_result_def)
  moreover have "(\<exists>n. Reconcile_result w req =
         Return (\<lparr>Requeue = False, RequeueAfter = 0\<rparr>,
           Some (Errorf ''unable to cordon node %s: %v'' [ArgString n, ArgError err]))) \<and>
      (\<forall>h' nm r. Drain h' nm r \<notin> set (Reconcile_trace w req)) \<and>
      (\<forall>v opts r. DeleteVMI v opts r \<notin> set (Reconcile_trace w req))"
    if a: "Cordon h nd b (Some err) \<in> set (Reconcile_trace w req)"
  proof -
    from a obtain vmi c t1 where v: "Get_vmi w (req_NamespacedName req) = Inr vmi"
      and ev: "EvacuationNodeName vmi \<noteq> []" and g: "getCluster w vmi = (Inr c, t1)"
      and d: "Cordon h nd b (Some err) \<in> set (snd (drainNode w c (EvacuationNodeName vmi)))"
      by (rule Reconcile_drain_event) (simp add: drain_event_def)
    from drain_cordon_failed [OF d] obtain t2 where
      dn: "drainNode w c (EvacuationNodeName vmi) =
        (Return (False, 0, Some (Errorf ''unable to cordon node %s: %v''
           [ArgString (EvacuationNodeName vmi), ArgError err])), t2)"
      and nd: "\<forall>h' nm r. Drain h' nm r \<notin> set t2"
      by blast
    have r: "Reconcile w req =
        (Return (\<lparr>Requeue = False, RequeueAfter = 0\<rparr>,
           Some (Errorf ''unable to cordon node %s: %v''
             [ArgString (EvacuationNodeName vmi), ArgError err])),
         GetVMI (req_NamespacedName req) (Inr vmi) # t1 @ t2)"
      using Reconcile_not_drained [OF v ev g dn] by simp
    have "DeleteVMI v' opts r' \<notin> set t2" for v' opts r'
      using drainNode_no_delete [of v' opts r' w c "EvacuationNodeName vmi"] dn by simp
    with nd getCluster_no_delete [OF g] getCluster_only_get_cluster(2) [OF g] show ?thesis
      by (auto simp: Reconcile_result_def Reconcile_trace_def r)
  qed
  ultimately show ?thesis by blast
qed

theorem C5_cordon_failure_is_surfaced_witness:
  "Cordon (new_drainer client0) node0 True (Some refused)
      \<in> set (drainNode_trace world_cordon_fails cluster0 ''node-7'') \<and>
   drainNode_result world_cordon_fails cluster0 ''node-7'' =
     Return (False, 0,
       Some (Errorf ''unable to cordon node %s: %v'' [ArgString ''node-7'', ArgError refused])) \<and>
   Cordon (new_drainer client0) node0 True (Some refused)
      \<in> set (Reconcile_trace world_cordon_fails req0) \<and>
   Reconcile_result world_cordon_fails req0 =
     Return (\<lparr>Requeue = False, RequeueAfter = 0\<rparr>,
       Some (Errorf ''unable to cordon node %s: %v'' [ArgString ''node-7'', ArgError refused]))"
proof -
  have r: "Reconcile world_cordon_fails req0 =
     (Return (\<lparr>Requeue = False, RequeueAfter = 0\<rparr>,
        Some (Errorf ''unable to cordon node %s: %v'' [ArgString ''node-7'', ArgError refused])),
      GetVMI \<lparr>Namespace = ''default'', Name = ''vm-1''\<rparr> (Inr vmi0) #
      GetCluster \<lparr>Namespace = ''tenants'', Name = ''c1''\<rparr> (Inr cluster0) #
      snd (drainNode world_cordon_fails cluster0 ''node-7''))"
    using Reconcile_req0_not_drained [OF world_cordon_fails_mgmt drainNode_cordon_fails]
    by (simp add: drainNode_cordon_fails)
  have a: "Cordon (new_drainer client0) node0 True (Some refused)
      \<in> set (drainNode_trace world_cordon_fails cluster0 ''node-7'')"
    by (simp add: drainNode_trace_def drainNode_cordon_fails)
  have b: "Cordon (new_drainer client0) node0 True (Some refused)
      \<in> set (Reconcile_trace world_cordon_fails req0)"
    by (simp add: Reconcile_trace_def r drainNode_cordon_fails)
  show ?thesis
    using C5_cordon_failure_is_surfaced
      [of "new_drainer client0" node0 True refused world_cordon_fails cluster0 "''node-7''" req0]
      a b
    by (simp add: Reconcile_result_def r)
qed



text \<open>
  Claim C7. For an instance whose \<open>EvacuationNodeName\<close> is empty, \<open>Reconcile\<close> returns the
  empty result with no error, and its whole trace is the fetch of the instance and one log
  entry: no cluster is resolved, no call goes to the workload cluster, nothing is deleted.
\<close>

theorem C7_no_evacuation_is_noop:
  "Get_vmi w (req_NamespacedName req) = Inr vmi \<and> EvacuationNodeName vmi = [] \<longrightarrow>
     Reconcile_result w req = Return (\<lparr>Requeue = False, RequeueAfter = 0\<rparr>, None) \<and>
     (\<exists>m. Reconcile_trace w req =
        [GetVMI (req_NamespacedName req) (Inr vmi), Log (LogInfo 4 m [])])"
  unfolding Reconcile_result_def Reconcile_trace_def
  by (cases rule: Reconcile_cases[of w req]) (auto simp: no_requeue_def)

theorem C7_no_evacuation_is_noop_witness:
  "Get_vmi world_not_evacuating (req_NamespacedName req0) = Inr (vmi0\<lparr>EvacuationNodeName := []\<rparr>) \<and>
   EvacuationNodeName (vmi0\<lparr>EvacuationNodeName := []\<rparr>) = [] \<and>
   Reconcile_result world_not_evacuating req0 =
     Return (\<lparr>Requeue = False, RequeueAfter = 0\<rparr>, None) \<and>
   length (Reconcile_trace world_not_evacuating req0) = 2"
proof -
  have v: "Get_vmi world_not_evacuating (req_NamespacedName req0) =
      Inr (vmi0\<lparr>EvacuationNodeName := []\<rparr>)"
    by (simp add: world_not_evacuating_def)
  have e: "EvacuationNodeName (vmi0\<lparr>EvacuationNodeName := []\<rparr>) = []"
    by simp
  show ?thesis
    using C7_no_evacuation_is_noop
      [of world_not_evacuating req0 "vmi0\<lparr>EvacuationNodeName := []\<rparr>"] v e
    by auto
qed

text \<open>
  Claim C8. \<open>getCluster\<close> fails with an error that names the missing label when the
  cluster-namespace label or the cluster-name label is absent; otherwise it fetches the
  cluster by that namespace and name, and fails with the wrapped error of the fetch when the
  fetch fails. When \<open>Reconcile\<close> reaches the resolution and it fails, \<open>Reconcile\<close> returns
  that error with the empty result, and goes on neither to the drain nor to the delete.
\<close>

theorem C8_cluster_resolution:
  "(Labels vmi (KubevirtMachineNamespaceLabel w) = None \<longrightarrow>
      getCluster w vmi =
        (Inl (Errorf ''can't find the cluster namespace from the VM; missing %s label''
                [ArgString (KubevirtMachineNamespaceLabel w)]), [])) \<and>
   (Labels vmi (KubevirtMachineNamespaceLabel w) = Some ns \<and>
    Labels vmi ClusterLabelName = None \<longrightarrow>
      getCluster w vmi =
        (Inl (Errorf ''can't find the cluster name from the VM; missing %s label''
                [ArgString ClusterLabelName]), [])) \<and>
   (Labels vmi (KubevirtMachineNamespaceLabel w) = Some ns \<and>
    Labels vmi ClusterLabelName = Some nm \<and>
    Get_cluster w \<lparr>Namespace = ns, Name = nm\<rparr> = Inl err \<longrightarrow>
      getCluster w vmi =
        (Inl (Wrapped ''can't find the cluster %s/%s; %w'' [ArgString ns, ArgString nm] err),
         [GetCluster \<lparr>Namespace = ns, Name = nm\<rparr> (Inl err)])) \<and>
   (Labels vmi (KubevirtMachineNamespaceLabel w) = Some ns \<and>
    Labels vmi ClusterLabelName = Some nm \<and>
    Get_cluster w \<lparr>Namespace = ns, Name = nm\<rparr> = Inr cluster \<longrightarrow>
      getCluster w vmi =
        (Inr cluster, [GetCluster \<lparr>Namespace = ns, Name = nm\<rparr> (Inr cluster)])) \<and>
   (Get_vmi w (req_NamespacedName req) = Inr vmi \<and> EvacuationNodeName vmi \<noteq> [] \<and>
    fst (getCluster w vmi) = Inl e \<longrightarrow>
      Reconcile_result w req = Return (\<lparr>Requeue = False, RequeueAfter = 0\<rparr>, Some e) \<and>
      (\<forall>ev \<in> set (Reconcile_trace w req). \<not> drain_event ev) \<and>
      (\<forall>v opts r. DeleteVMI v opts r \<notin> set (Reconcile_trace w req)))"
proof -
  have "Reconcile_result w req = Return (\<lparr>Requeue = False, RequeueAfter = 0\<rparr>, Some e) \<and>
      (\<forall>ev \<in> set (Reconcile_trace w req). \<not> drain_event ev) \<and>
      (\<forall>v opts r. DeleteVMI v opts r \<notin> set (Reconcile_trace w req))"
    if "Get_vmi w (req_NamespacedName req) = Inr vmi" "EvacuationNodeName vmi \<noteq> []"
      "fst (getCluster w vmi) = Inl e"
    using that
    by (cases rule: Reconcile_cases[of w req])
      (auto simp: Reconcile_result_def Reconcile_trace_def no_requeue_def drain_event_def
        dest: getCluster_trace)
  then show ?thesis
    by (simp add: getCluster_def Let_def)
qed

theorem C8_cluster_resolution_witness:
  "Labels vmi_no_namespace_label (KubevirtMachineNamespaceLabel world0) = None \<and>
   getCluster world0 vmi_no_namespace_label =
     (Inl (Errorf ''can't find the cluster namespace from the VM; missing %s label''
             [ArgString ''capk.cluster.x-k8s.io/kubevirt-machine-namespace'']), []) \<and>
   Labels vmi_no_name_label (KubevirtMachineNamespaceLabel world0) = Some ''tenants'' \<and>
   Labels vmi_no_name_label ClusterLabelName = None \<and>
   getCluster world0 vmi_no_name_label =
     (Inl (Errorf ''can't find the cluster name from the VM; missing %s label''
             [ArgString ''cluster.x-k8s.io/cluster-name'']), []) \<and>
   Get_cluster world_no_cluster \<lparr>Namespace = ''tenants'', Name = ''c1''\<rparr> = Inl gone \<and>
   getCluster world_no_cluster vmi0 =
     (Inl (Wrapped ''can't find the cluster %s/%s; %w''
             [ArgString ''tenants'', ArgString ''c1''] gone),
      [GetCluster \<lparr>Namespace = ''tenants'', Name = ''c1''\<rparr> (Inl gone)]) \<and>
   Get_cluster world0 \<lparr>Namespace = ''tenants'', Name = ''c1''\<rparr> = Inr cluster0 \<and>
   getCluster world0 vmi0 =
     (Inr cluster0, [GetCluster \<lparr>Namespace = ''tenants'', Name = ''c1''\<rparr> (Inr cluster0)]) \<and>
   Get_vmi world_no_cluster (req_NamespacedName req0) = Inr vmi0 \<and>
   EvacuationNodeName vmi0 \<noteq> [] \<and>
   Reconcile_result world_no_cluster req0 =
     Return (\<lparr>Requeue = False, RequeueAfter = 0\<rparr>,
       Some (Wrapped ''can't find the cluster %s/%s; %w''
               [ArgString ''tenants'', ArgString ''c1''] gone))"
proof -
  have l: "KubevirtMachineNamespaceLabel world0 =
      ''capk.cluster.x-k8s.io/kubevirt-machine-namespace''"
    by (simp add: world0_def)
  have c0: "Get_cluster world0 \<lparr>Namespace = ''tenants'', Name = ''c1''\<rparr> = Inr cluster0"
    by (simp add: world0_def)
  have n: "EvacuationNodeName vmi0 \<noteq> []"
    by (simp add: vmi0_def)
  have one: "getCluster world0 vmi_no_namespace_label =
     (Inl (Errorf ''can't find the cluster namespace from the VM; missing %s label''
             [ArgString ''capk.cluster.x-k8s.io/kubevirt-machine-namespace'']), [])"
    using C8_cluster_resolution [of vmi_no_namespace_label world0]
      labels_vmi_no_namespace_label
    by (simp add: l)
  have two: "getCluster world0 vmi_no_name_label =
     (Inl (Errorf ''can't find the cluster name from the VM; missing %s label''
             [ArgString ''cluster.x-k8s.io/cluster-name'']), [])"
    using C8_cluster_resolution [of vmi_no_name_label world0 "''tenants''"]
      labels_vmi_no_name_label
    by (simp add: ClusterLabelName_def)
  have three: "getCluster world_no_cluster vmi0 =
     (Inl (Wrapped ''can't find the cluster %s/%s; %w''
             [ArgString ''tenants'', ArgString ''c1''] gone),
      [GetCluster \<lparr>Namespace = ''tenants'', Name = ''c1''\<rparr> (Inl gone)])"
    using C8_cluster_resolution [of vmi0 world_no_cluster "''tenants''" "''c1''" gone]
      labels_vmi0 world_no_cluster_mgmt
    by simp
  have four: "getCluster world0 vmi0 =
     (Inr cluster0, [GetCluster \<lparr>Namespace = ''tenants'', Name = ''c1''\<rparr> (Inr cluster0)])"
    using C8_cluster_resolution [of vmi0 world0 "''tenants''" "''c1''" _ cluster0]
      labels_vmi0 c0
    by simp
  have five: "Reconcile_result world_no_cluster req0 =
     Return (\<lparr>Requeue = False, RequeueAfter = 0\<rparr>,
       Some (Wrapped ''can't find the cluster %s/%s; %w''
               [ArgString ''tenants'', ArgString ''c1''] gone))"
    using C8_cluster_resolution [of vmi0 world_no_cluster _ _ _ _ req0
        "Wrapped ''can't find the cluster %s/%s; %w'' [ArgString ''tenants'', ArgString ''c1''] gone"]
      world_no_cluster_mgmt(1) n three
    by simp
  show ?thesis
    using one two three four five n c0 labels_vmi_no_namespace_label labels_vmi_no_name_label
      world_no_cluster_mgmt
    by simp
qed

text \<open>
  Claim C9. Once \<open>drainNode\<close> has fetched the node, it cordons that node, and the helper of
  every cordon and drain call of the attempt has \<open>SkipWaitForDeleteTimeoutSeconds\<close> at 300
  when the node is classified unreachable, and at its default 0 otherwise.
\<close>

theorem C9_unreachable_node_tolerance:
  "GetNode kc nn (Inr node) \<in> set (drainNode_trace w cluster nodeName) \<longrightarrow>
     (\<exists>h r. Cordon h node True r \<in> set (drainNode_trace w cluster nodeName)) \<and>
     (\<forall>h nd b r. Cordon h nd b r \<in> set (drainNode_trace w cluster nodeName) \<longrightarrow>
        nd = node \<and>
        SkipWaitForDeleteTimeoutSeconds h = (if IsNodeUnreachable w node then 300 else 0)) \<and>
     (\<forall>h nm r. Drain h nm r \<in> set (drainNode_trace w cluster nodeName) \<longrightarrow>
        nm = node_Name node \<and>
        SkipWaitForDeleteTimeoutSeconds h = (if IsNodeUnreachable w node then 300 else 0))"
proof
  assume "GetNode kc nn (Inr node) \<in> set (drainNode_trace w cluster nodeName)"
  then have a: "GetNode kc nn (Inr node) \<in> set (snd (drainNode w cluster nodeName))"
    by (simp add: drainNode_trace_def)
  from drain_fetched_node [OF a] obtain pre r post where
    t: "snd (drainNode w cluster nodeName) =
      pre @ [GetNode kc nodeName (Inr node), Cordon (drainer_for w kc node) node True r] @ post"
    and c: "\<forall>h nd b r'. Cordon h nd b r' \<in> set (snd (drainNode w cluster nodeName)) \<longrightarrow>
              h = drainer_for w kc node \<and> nd = node"
    and d: "\<forall>h nm r'. Drain h nm r' \<in> set (snd (drainNode w cluster nodeName)) \<longrightarrow>
              h = drainer_for w kc node \<and> nm = node_Name node"
    by blast
  from t have "Cordon (drainer_for w kc node) node True r \<in> set (drainNode_trace w cluster nodeName)"
    by (simp add: drainNode_trace_def)
  then have e: "\<exists>h r. Cordon h node True r \<in> set (drainNode_trace w cluster nodeName)"
    by blast
  have cs: "nd = node \<and>
      SkipWaitForDeleteTimeoutSeconds h = (if IsNodeUnreachable w node then 300 else 0)"
    if "Cordon h nd b r' \<in> set (drainNode_trace w cluster nodeName)" for h nd b r'
  proof -
    from c that have "h = drainer_for w kc node \<and> nd = node"
      unfolding drainNode_trace_def by blast
    then show ?thesis
      using drainer_for_skip [of w kc node] by simp
  qed
  have ds: "nm = node_Name node \<and>
      SkipWaitForDeleteTimeoutSeconds h = (if IsNodeUnreachable w node then 300 else 0)"
    if "Drain h nm r' \<in> set (drainNode_trace w cluster nodeName)" for h nm r'
  proof -
    from d that have "h = drainer_for w kc node \<and> nm = node_Name node"
      unfolding drainNode_trace_def by blast
    then show ?thesis
      using drainer_for_skip [of w kc node] by simp
  qed
  from e cs ds show "(\<exists>h r. Cordon h node True r \<in> set (drainNode_trace w cluster nodeName)) \<and>
     (\<forall>h nd b r. Cordon h nd b r \<in> set (drainNode_trace w cluster nodeName) \<longrightarrow>
        nd = node \<and>
        SkipWaitForDeleteTimeoutSeconds h = (if IsNodeUnreachable w node then 300 else 0)) \<and>
     (\<forall>h nm r. Drain h nm r \<in> set (drainNode_trace w cluster nodeName) \<longrightarrow>
        nm = node_Name node \<and>
        SkipWaitForDeleteTimeoutSeconds h = (if IsNodeUnreachable w node then 300 else 0))"
    by blast
qed

theorem C9_unreachable_node_tolerance_witness:
  "GetNode client0 ''node-7'' (Inr node0)
     \<in> set (drainNode_trace world_unreachable cluster0 ''node-7'') \<and>
   IsNodeUnreachable world_unreachable node0 \<and>
   Drain ((new_drainer client0)\<lparr>SkipWaitForDeleteTimeoutSeconds := 300\<rparr>) ''node-7'' None
     \<in> set (drainNode_trace world_unreachable cluster0 ''node-7'') \<and>
   SkipWaitForDeleteTimeoutSeconds
     ((new_drainer client0)\<lparr>SkipWaitForDeleteTimeoutSeconds := 300\<rparr>) = 300 \<and>
   GetNode client0 ''node-7'' (Inr node0) \<in> set (drainNode_trace world0 cluster0 ''node-7'') \<and>
   \<not> IsNodeUnreachable world0 node0 \<and>
   Drain (new_drainer client0) ''node-7'' None
     \<in> set (drainNode_trace world0 cluster0 ''node-7'') \<and>
   SkipWaitForDeleteTimeoutSeconds (new_drainer client0) = 0"
proof -
  have a: "GetNode client0 ''node-7'' (Inr node0)
     \<in> set (drainNode_trace world_unreachable cluster0 ''node-7'')"
    by (simp add: drainNode_trace_def drainNode_unreachable)
  have b: "Drain ((new_drainer client0)\<lparr>SkipWaitForDeleteTimeoutSeconds := 300\<rparr>) ''node-7'' None
     \<in> set (drainNode_trace world_unreachable cluster0 ''node-7'')"
    by (simp add: drainNode_trace_def drainNode_unreachable)
  have u: "IsNodeUnreachable world_unreachable node0"
    by (simp add: world_unreachable_def)
  have a0: "GetNode client0 ''node-7'' (Inr node0) \<in> set (drainNode_trace world0 cluster0 ''node-7'')"
    by (simp add: drainNode_trace_def drainNode_world0)
  have b0: "Drain (new_drainer client0) ''node-7'' None
     \<in> set (drainNode_trace world0 cluster0 ''node-7'')"
    by (simp add: drainNode_trace_def drainNode_world0)
  have u0: "\<not> IsNodeUnreachable world0 node0"
    by (simp add: world0_def)
  from a b u have "SkipWaitForDeleteTimeoutSeconds
     ((new_drainer client0)\<lparr>SkipWaitForDeleteTimeoutSeconds := 300\<rparr>) = 300"
    using C9_unreachable_node_tolerance
      [of client0 "''node-7''" node0 world_unreachable cluster0 "''node-7''"]
    by metis
  moreover from a0 b0 u0 have "SkipWaitForDeleteTimeoutSeconds (new_drainer client0) = 0"
    using C9_unreachable_node_tolerance
      [of client0 "''node-7''" node0 world0 cluster0 "''node-7''"]
    by metis
  ultimately show ?thesis
    using a b u a0 b0 u0 by simp
qed

text \<open>
  Claim C10. Whenever \<open>drainNode\<close> returns \<open>(done, retry, err)\<close>: a non-nil error comes
  with \<open>done = false\<close> and a zero retry duration; a non-zero retry duration comes with
  \<open>done = false\<close> and a nil error; and \<open>done = true\<close> comes with a zero retry duration and a
  nil error.
\<close>

theorem C10_drain_result_shape:
  "drainNode_result w cluster nodeName = Return (done, retry, err) \<longrightarrow>
     (err \<noteq> None \<longrightarrow> \<not> done \<and> retry = 0) \<and>
     (retry \<noteq> 0 \<longrightarrow> \<not> done \<and> err = None) \<and>
     (done \<longrightarrow> retry = 0 \<and> err = None)"
  unfolding drainNode_result_def
  by (cases rule: drainNode_cases[of w cluster nodeName]) auto

theorem C10_drain_result_shape_witness:
  "drainNode_result world0 cluster0 ''node-7'' = Return (True, 0, None) \<and>
   drainNode_result world_drain_fails cluster0 ''node-7'' = Return (False, 20000000000, None) \<and>
   drainNode_result world_cordon_fails cluster0 ''node-7'' =
     Return (False, 0,
       Some (Errorf ''unable to cordon node %s: %v'' [ArgString ''node-7'', ArgError refused]))"
  using C10_drain_result_shape [of world0 cluster0 "''node-7''" True 0 None]
  by (simp add: drainNode_result_def drainNode_world0 drainNode_drain_fails
      drainNode_cordon_fails)

end
